theory Spec2Isabelle
  imports Main "HOL-Library.AList"
begin

section \<open>Python values and text\<close>

text \<open>
  A Python \<open>str\<close> is modelled as the \<open>string\<close> of its UTF-8 bytes. Equality, emptiness and
  the hexadecimal test of an identifier agree with Python on this representation; slicing
  counts code points, so it is modelled by \<open>str_slice_to\<close>, which never cuts a code point.
\<close>

definition is_continuation :: "char \<Rightarrow> bool" where
  "is_continuation c = (128 \<le> (of_char c :: nat) \<and> (of_char c :: nat) < 192)"

text \<open>\<open>s[:n]\<close>: the first \<open>n\<close> code points of \<open>s\<close>.\<close>

fun str_slice_to :: "nat \<Rightarrow> string \<Rightarrow> string" where
  "str_slice_to n [] = []"
| "str_slice_to n (c # cs) =
     (if is_continuation c then c # str_slice_to n cs
      else (case n of 0 \<Rightarrow> [] | Suc m \<Rightarrow> c # str_slice_to m cs))"

text \<open>The number of code points of a text.\<close>

definition str_len :: "string \<Rightarrow> nat" where
  "str_len s = length (filter (\<lambda>c. \<not> is_continuation c) s)"

definition digit :: "nat \<Rightarrow> char" where
  "digit n = ''0123456789'' ! (n mod 10)"

definition pad2 :: "nat \<Rightarrow> string" where
  "pad2 n = [digit (n div 10), digit n]"

definition pad4 :: "nat \<Rightarrow> string" where
  "pad4 n = [digit (n div 1000), digit (n div 100), digit (n div 10), digit n]"

definition pad6 :: "nat \<Rightarrow> string" where
  "pad6 n = [digit (n div 100000), digit (n div 10000), digit (n div 1000),
             digit (n div 100), digit (n div 10), digit n]"

fun str_nat :: "nat \<Rightarrow> string" where
  "str_nat n = (if n < 10 then [digit n] else str_nat (n div 10) @ [digit n])"

declare str_nat.simps [simp del]

definition str_int :: "int \<Rightarrow> string" where
  "str_int i = (if i < 0 then CHR ''-'' # str_nat (nat (- i)) else str_nat (nat i))"

text \<open>
  \<open>datetime.date\<close> (year, month, day) and a naive \<open>datetime.datetime\<close> (a date, then hour,
  minute, second, microsecond), as \<open>datetime.utcnow()\<close> and the store's driver produce them.
  The fields are in the ranges of the Python classes (year below 10000, month below 13, ...).
\<close>

datatype date = Date nat nat nat

datatype datetime = Datetime date nat nat nat nat

fun date_isoformat :: "date \<Rightarrow> string" where
  "date_isoformat (Date y m d) = pad4 y @ ''-'' @ pad2 m @ ''-'' @ pad2 d"

text \<open>\<open>datetime.isoformat(sep)\<close>: the fraction is printed only when it is not zero.\<close>

fun datetime_isoformat_sep :: "char \<Rightarrow> datetime \<Rightarrow> string" where
  "datetime_isoformat_sep sep (Datetime d h mi s us) =
     date_isoformat d @ [sep] @ pad2 h @ '':'' @ pad2 mi @ '':'' @ pad2 s @
     (if us = 0 then [] else ''.'' @ pad6 us)"

definition datetime_isoformat :: "datetime \<Rightarrow> string" where
  "datetime_isoformat = datetime_isoformat_sep CHR ''T''"

text \<open>
  \<open>bson.ObjectId\<close>: twelve bytes, kept as the 24 lower-case hexadecimal digits that
  \<open>str\<close> prints.
\<close>

datatype object_id = Oid string

definition is_hex :: "char \<Rightarrow> bool" where
  "is_hex c = (c \<in> set ''0123456789abcdefABCDEF'')"

definition hex_lower :: "char \<Rightarrow> char" where
  "hex_lower c =
     (if c = CHR ''A'' then CHR ''a'' else if c = CHR ''B'' then CHR ''b''
      else if c = CHR ''C'' then CHR ''c'' else if c = CHR ''D'' then CHR ''d''
      else if c = CHR ''E'' then CHR ''e'' else if c = CHR ''F'' then CHR ''f'' else c)"

definition is_lower_hex :: "char \<Rightarrow> bool" where
  "is_lower_hex c = (c \<in> set ''0123456789abcdef'')"

text \<open>The identifiers the driver generates: 24 lower-case hexadecimal digits.\<close>

fun valid_oid :: "object_id \<Rightarrow> bool" where
  "valid_oid (Oid h) = (length h = 24 \<and> list_all is_lower_hex h)"

datatype val =
    VNone
  | VBool bool
  | VInt int
  | VStr string
  | VObjectId object_id
  | VDatetime datetime
  | VDate date

text \<open>Python's \<open>str(v)\<close>.\<close>

fun str :: "val \<Rightarrow> string" where
  "str VNone = ''None''"
| "str (VBool b) = (if b then ''True'' else ''False'')"
| "str (VInt i) = str_int i"
| "str (VStr s) = s"
| "str (VObjectId (Oid h)) = h"
| "str (VDatetime dt) = datetime_isoformat_sep CHR '' '' dt"
| "str (VDate d) = date_isoformat d"

text \<open>A document (a Python \<open>dict\<close> with text keys), in insertion order.\<close>

type_synonym doc = "(string \<times> val) list"

text \<open>
  The exceptions of the service: FastAPI's \<open>HTTPException(status_code, detail)\<close>,
  \<open>bson.errors.InvalidId\<close>, the driver's \<open>DuplicateKeyError\<close>, the gateway's failure when
  there is no store connection, and the \<open>TypeError\<close> of subscripting \<open>None\<close>.
\<close>

datatype exn =
    HTTPException nat string
  | InvalidId string
  | DuplicateKeyError
  | StoreUnavailable
  | TypeError

text \<open>
  \<open>ObjectId(s)\<close> for a text \<open>s\<close>: by the contract of \<open>bson\<close>, a 24-character hexadecimal
  text is accepted and anything else raises \<open>InvalidId\<close>.
\<close>

definition ObjectId :: "string \<Rightarrow> exn + object_id" where
  "ObjectId s =
     (if length s = 24 \<and> list_all is_hex s then Inr (Oid (map hex_lower s))
      else Inl (InvalidId s))"

section \<open>Response shaping\<close>

text \<open>
  The loop body of \<open>serialize_doc\<close>: a \<open>datetime\<close> or \<open>date\<close> value is replaced by its
  \<open>isoformat()\<close>, any other value is left as it is.
\<close>

fun isoformat_value :: "val \<Rightarrow> val" where
  "isoformat_value (VDatetime dt) = VStr (datetime_isoformat dt)"
| "isoformat_value (VDate d) = VStr (date_isoformat d)"
| "isoformat_value v = v"

text \<open>
  \<open>serialize_doc(doc)\<close>. A falsy \<open>doc\<close> (\<open>None\<close> or the empty dict) is returned as it is.
  Otherwise \<open>_id\<close>, when present, is popped and its \<open>str\<close> stored under \<open>id\<close>; then every
  item whose value is a \<open>datetime\<close> or \<open>date\<close> is reassigned (a dict holds one item per
  key, so the loop rewrites each item in place).
\<close>

definition serialize_doc :: "doc option \<Rightarrow> doc option" where
  "serialize_doc doc =
     (case doc of
        None \<Rightarrow> None
      | Some d0 \<Rightarrow>
          if d0 = [] then Some d0
          else
            let d = (case map_of d0 ''_id'' of
                       Some v \<Rightarrow> AList.update ''id'' (VStr (str v)) (AList.delete ''_id'' d0)
                     | None \<Rightarrow> d0)
            in Some (map (\<lambda>(k, v). (k, isoformat_value v)) d))"

section \<open>The document store\<close>

text \<open>
  The handle \<open>db\<close> of the store, as far as the service uses it: the attribute \<open>name\<close>
  (\<open>None\<close> when \<open>hasattr(db, 'name')\<close> is false), the outcome of
  \<open>db.list_collection_names()\<close> (\<open>Inl m\<close>: the call raises an exception \<open>e\<close> with
  \<open>str(e) = m\<close>), and the documents of each collection \<open>db[c]\<close> in store order.
  The global \<open>db\<close> is \<open>None\<close> when the store is not configured.
\<close>

record mongo_db =
  name :: "string option"
  list_collection_names :: "string + string list"
  colls :: "string \<Rightarrow> doc list"

text \<open>The filter \<open>{"_id": oid}\<close>.\<close>

definition has_id :: "object_id \<Rightarrow> doc \<Rightarrow> bool" where
  "has_id oid d = (map_of d ''_id'' = Some (VObjectId oid))"

text \<open>\<open>collection.find_one({"_id": oid})\<close>: the first matching document, or \<open>None\<close>.\<close>

definition find_one :: "doc list \<Rightarrow> object_id \<Rightarrow> doc option" where
  "find_one docs oid = List.find (has_id oid) docs"

text \<open>A BSON date holds milliseconds: the store truncates the microseconds of a \<open>datetime\<close>.\<close>

fun bson_value :: "val \<Rightarrow> val" where
  "bson_value (VDatetime (Datetime d h mi s us)) = VDatetime (Datetime d h mi s (us div 1000 * 1000))"
| "bson_value v = v"

text \<open>The operator \<open>$set\<close>: each field of \<open>updates\<close> is assigned in the document.\<close>

definition set_fields :: "doc \<Rightarrow> doc \<Rightarrow> doc" where
  "set_fields updates d = fold (\<lambda>(k, v). AList.update k (bson_value v)) updates d"

text \<open>
  \<open>collection.update_one({"_id": oid}, {"$set": updates})\<close>: the first matching document is
  updated; the result is \<open>matched_count\<close> and the documents of the collection afterwards.
\<close>

fun update_one :: "doc list \<Rightarrow> object_id \<Rightarrow> doc \<Rightarrow> nat \<times> doc list" where
  "update_one [] oid updates = (0, [])"
| "update_one (d # ds) oid updates =
     (if has_id oid d then (1, set_fields updates d # ds)
      else (case update_one ds oid updates of (n, ds') \<Rightarrow> (n, d # ds')))"

text \<open>
  \<open>collection.delete_one({"_id": oid})\<close>: the first matching document is removed; the result
  is \<open>deleted_count\<close> and the documents of the collection afterwards.
\<close>

fun delete_one :: "doc list \<Rightarrow> object_id \<Rightarrow> nat \<times> doc list" where
  "delete_one [] oid = (0, [])"
| "delete_one (d # ds) oid =
     (if has_id oid d then (1, ds)
      else (case delete_one ds oid of (n, ds') \<Rightarrow> (n, d # ds')))"

text \<open>
  \<open>collection.insert_one(document)\<close> for a document without \<open>_id\<close>: the driver generates
  the identifier \<open>fresh\<close> and the store keeps it as the first field; an identifier that is
  already in the collection raises \<open>DuplicateKeyError\<close>. The result is \<open>inserted_id\<close> and the
  documents afterwards.
\<close>

definition insert_one :: "doc list \<Rightarrow> doc \<Rightarrow> object_id \<Rightarrow> exn + object_id \<times> doc list" where
  "insert_one docs document fresh =
     (if find_one docs fresh \<noteq> None then Inl DuplicateKeyError
      else Inr (fresh, docs @ [(''_id'', VObjectId fresh) # map (\<lambda>(k, v). (k, bson_value v)) document]))"

text \<open>\<open>db[c]\<close> after the documents of collection \<open>c\<close> became \<open>docs\<close>.\<close>

definition set_coll :: "mongo_db \<Rightarrow> string \<Rightarrow> doc list \<Rightarrow> mongo_db" where
  "set_coll d c docs = d\<lparr>colls := (colls d)(c := docs)\<rparr>"

text \<open>\<open>not doc\<close> for the result of \<open>find_one\<close>: \<open>None\<close> and the empty dict are falsy.\<close>

definition falsy :: "doc option \<Rightarrow> bool" where
  "falsy doc = (doc = None \<or> doc = Some [])"

section \<open>Payloads\<close>

text \<open>
  \<open>TicketUpdate\<close>: five optional text fields. A field is \<open>None\<close> when the request did not
  set it, \<open>Some None\<close> when it was set to \<open>null\<close> and \<open>Some (Some s)\<close> when it was set to
  the text \<open>s\<close>.
\<close>

record TicketUpdate =
  title :: "string option option"
  description :: "string option option"
  status :: "string option option"
  priority :: "string option option"
  assignee :: "string option option"

text \<open>An optional text as a Python value.\<close>

fun optional_str :: "string option \<Rightarrow> val" where
  "optional_str None = VNone"
| "optional_str (Some s) = VStr s"

definition dump_if_set :: "string \<Rightarrow> string option option \<Rightarrow> doc" where
  "dump_if_set k f = (case f of None \<Rightarrow> [] | Some v \<Rightarrow> [(k, optional_str v)])"

text \<open>\<open>payload.model_dump(exclude_unset=True)\<close>: the fields that were set, in field order.\<close>

definition model_dump_exclude_unset :: "TicketUpdate \<Rightarrow> doc" where
  "model_dump_exclude_unset p =
     dump_if_set ''title'' (title p) @ dump_if_set ''description'' (description p) @
     dump_if_set ''status'' (status p) @ dump_if_set ''priority'' (priority p) @
     dump_if_set ''assignee'' (assignee p)"

text \<open>
  Modelled from the spec: the schema \<open>Ticket\<close> of \<open>schemas.py\<close>, which \<open>TicketCreate\<close>
  inherits unchanged and which is not among the sources. A validated creation value has a
  non-empty text \<open>title\<close> and the optional texts \<open>description\<close>, \<open>status\<close> (after the
  validator's default), \<open>priority\<close> and \<open>assignee\<close>.
\<close>

datatype TicketCreate = TicketCreate string "string option" "string option" "string option" "string option"

fun valid_ticket :: "TicketCreate \<Rightarrow> bool" where
  "valid_ticket (TicketCreate t d s p a) = (t \<noteq> [])"

text \<open>\<open>payload.model_dump()\<close>: every field of the creation value, in field order.\<close>

fun model_dump :: "TicketCreate \<Rightarrow> doc" where
  "model_dump (TicketCreate t d s p a) =
     [(''title'', VStr t), (''description'', optional_str d), (''status'', optional_str s),
      (''priority'', optional_str p), (''assignee'', optional_str a)]"

section \<open>The gateway\<close>

text \<open>
  Modelled from the spec: \<open>create_document\<close> of \<open>database.py\<close>, which is not among the
  sources. \<open>insert(document) -> id\<close>: stores the document and returns its assigned
  identifier, exposed as a text; fails with StoreUnavailable if no store connection exists.
  \<open>fresh\<close> is the identifier the driver generates for this insertion.
\<close>

definition create_document ::
  "mongo_db option \<Rightarrow> string \<Rightarrow> TicketCreate \<Rightarrow> object_id \<Rightarrow> (exn + string) \<times> mongo_db option" where
  "create_document db collection_name data fresh =
     (case db of
        None \<Rightarrow> (Inl StoreUnavailable, db)
      | Some d \<Rightarrow>
          (case insert_one (colls d collection_name) (model_dump data) fresh of
             Inl e \<Rightarrow> (Inl e, db)
           | Inr (inserted_id, docs) \<Rightarrow>
               (Inr (str (VObjectId inserted_id)), Some (set_coll d collection_name docs))))"

text \<open>A document matches a filter when each field of the filter has exactly that value.\<close>

definition matches :: "doc \<Rightarrow> doc \<Rightarrow> bool" where
  "matches filter_dict d = list_all (\<lambda>(k, v). map_of d k = Some v) filter_dict"

text \<open>
  Modelled from the spec: \<open>get_documents\<close> of \<open>database.py\<close>, which is not among the
  sources. \<open>findMany(filter: mapping of field to exact-match value) -> sequence of
  documents\<close>: the empty filter returns the entire collection, in store order.
\<close>

definition get_documents :: "mongo_db option \<Rightarrow> string \<Rightarrow> doc \<Rightarrow> exn + doc list" where
  "get_documents db collection_name filter_dict =
     (case db of
        None \<Rightarrow> Inl StoreUnavailable
      | Some d \<Rightarrow> Inr (filter (matches filter_dict) (colls d collection_name)))"

section \<open>The routes\<close>

definition not_configured :: exn where
  "not_configured = HTTPException 500 ''Database not configured''"

definition not_found :: exn where
  "not_found = HTTPException 404 ''Ticket not found''"

definition invalid_id :: exn where
  "invalid_id = HTTPException 400 ''Invalid ticket id''"

text \<open>
  The handler \<open>except Exception: raise HTTPException(400)\<close> of \<open>get_ticket\<close>: every
  exception of the block, an \<open>HTTPException\<close> of the block too, becomes the 400.
\<close>

fun except_Exception :: "exn + 'a \<Rightarrow> exn + 'a" where
  "except_Exception (Inl e) = Inl invalid_id"
| "except_Exception (Inr r) = Inr r"

text \<open>
  The handlers \<open>except HTTPException: raise\<close> and then \<open>except Exception: raise
  HTTPException(400)\<close> of \<open>update_ticket\<close> and \<open>delete_ticket\<close>.
\<close>

fun except_HTTPException_raise :: "exn + 'a \<Rightarrow> exn + 'a" where
  "except_HTTPException_raise (Inl (HTTPException c m)) = Inl (HTTPException c m)"
| "except_HTTPException_raise (Inl e) = Inl invalid_id"
| "except_HTTPException_raise (Inr r) = Inr r"

text \<open>\<open>POST /api/tickets\<close>. No exception is handled here: each one leaves the route.\<close>

definition create_ticket ::
  "mongo_db option \<Rightarrow> TicketCreate \<Rightarrow> object_id \<Rightarrow> (exn + doc option) \<times> mongo_db option" where
  "create_ticket db payload fresh =
     (case db of
        None \<Rightarrow> (Inl not_configured, db)
      | Some _ \<Rightarrow>
          (case create_document db ''ticket'' payload fresh of
             (Inl e, db') \<Rightarrow> (Inl e, db')
           | (Inr ticket_id, db') \<Rightarrow>
               (case ObjectId ticket_id of
                  Inl e \<Rightarrow> (Inl e, db')
                | Inr oid \<Rightarrow>
                    (case db' of
                       None \<Rightarrow> (Inl TypeError, db')
                     | Some d' \<Rightarrow> (Inr (serialize_doc (find_one (colls d' ''ticket'') oid)), db')))))"

text \<open>The dict \<open>filter_q\<close> of \<open>list_tickets\<close>: a parameter is used when it is truthy.\<close>

definition filter_q :: "string option \<Rightarrow> string option \<Rightarrow> doc" where
  "filter_q status_param priority_param =
     (case status_param of None \<Rightarrow> [] | Some s \<Rightarrow> if s = [] then [] else [(''status'', VStr s)]) @
     (case priority_param of None \<Rightarrow> [] | Some p \<Rightarrow> if p = [] then [] else [(''priority'', VStr p)])"

text \<open>\<open>GET /api/tickets\<close>.\<close>

definition list_tickets :: "mongo_db option \<Rightarrow> string option \<Rightarrow> string option \<Rightarrow> exn + doc option list" where
  "list_tickets db status_param priority_param =
     (case db of
        None \<Rightarrow> Inl not_configured
      | Some _ \<Rightarrow>
          (case get_documents db ''ticket'' (filter_q status_param priority_param) of
             Inl e \<Rightarrow> Inl e
           | Inr docs \<Rightarrow> Inr (map (\<lambda>d. serialize_doc (Some d)) docs)))"

text \<open>\<open>GET /api/tickets/{ticket_id}\<close>.\<close>

definition get_ticket :: "mongo_db option \<Rightarrow> string \<Rightarrow> exn + doc option" where
  "get_ticket db ticket_id =
     (case db of
        None \<Rightarrow> Inl not_configured
      | Some d \<Rightarrow>
          except_Exception
            (case ObjectId ticket_id of
               Inl e \<Rightarrow> Inl e
             | Inr oid \<Rightarrow>
                 (let doc = find_one (colls d ''ticket'') oid
                  in if falsy doc then Inl not_found else Inr (serialize_doc doc))))"

text \<open>
  \<open>PATCH\<close> and \<open>PUT /api/tickets/{ticket_id}\<close>; \<open>now\<close> is the value of
  \<open>datetime.utcnow()\<close>. \<open>ObjectId(ticket_id)\<close> is evaluated before the store is called, so
  a text that is no identifier leaves the store as it was; its second evaluation, for the
  final \<open>find_one\<close>, gives the same identifier.
\<close>

definition update_ticket ::
  "mongo_db option \<Rightarrow> datetime \<Rightarrow> string \<Rightarrow> TicketUpdate \<Rightarrow> (exn + doc option) \<times> mongo_db option" where
  "update_ticket db now ticket_id payload =
     (case db of
        None \<Rightarrow> (Inl not_configured, db)
      | Some d \<Rightarrow>
          (let updates = model_dump_exclude_unset payload in
           if updates = [] then
             (except_HTTPException_raise
                (case ObjectId ticket_id of
                   Inl e \<Rightarrow> Inl e
                 | Inr oid \<Rightarrow>
                     (let doc = find_one (colls d ''ticket'') oid
                      in if falsy doc then Inl not_found else Inr (serialize_doc doc))),
              db)
           else
             (let updates = AList.update ''updated_at'' (VDatetime now) updates in
              case ObjectId ticket_id of
                Inl e \<Rightarrow> (except_HTTPException_raise (Inl e), db)
              | Inr oid \<Rightarrow>
                  (case update_one (colls d ''ticket'') oid updates of
                     (matched_count, docs) \<Rightarrow>
                       (let d' = set_coll d ''ticket'' docs in
                        (except_HTTPException_raise
                           (if matched_count = 0 then Inl not_found
                            else Inr (serialize_doc (find_one (colls d' ''ticket'') oid))),
                         Some d'))))))"

text \<open>\<open>DELETE /api/tickets/{ticket_id}\<close>.\<close>

definition delete_ticket :: "mongo_db option \<Rightarrow> string \<Rightarrow> (exn + doc) \<times> mongo_db option" where
  "delete_ticket db ticket_id =
     (case db of
        None \<Rightarrow> (Inl not_configured, db)
      | Some d \<Rightarrow>
          (case ObjectId ticket_id of
             Inl e \<Rightarrow> (except_HTTPException_raise (Inl e), db)
           | Inr oid \<Rightarrow>
               (case delete_one (colls d ''ticket'') oid of
                  (deleted_count, docs) \<Rightarrow>
                    (except_HTTPException_raise
                       (if deleted_count = 0 then Inl not_found
                        else Inr [(''status'', VStr ''deleted''), (''id'', VStr ticket_id)]),
                     Some (set_coll d ''ticket'' docs)))))"

text \<open>
  The routes of the path \<open>/api/tickets/{ticket_id}\<close>: \<open>get_ticket\<close> is registered for
  \<open>GET\<close>, \<open>update_ticket\<close> for \<open>PUT\<close> and for \<open>PATCH\<close> (the two decorators are stacked on
  the one function), \<open>delete_ticket\<close> for \<open>DELETE\<close>; the framework answers any other method
  with 405.
\<close>

datatype http_method = GET | POST | PUT | PATCH | DELETE

fun ticket_id_route ::
  "http_method \<Rightarrow> mongo_db option \<Rightarrow> datetime \<Rightarrow> string \<Rightarrow> TicketUpdate \<Rightarrow>
     (exn + doc option) \<times> mongo_db option" where
  "ticket_id_route GET db now ticket_id payload = (get_ticket db ticket_id, db)"
| "ticket_id_route PUT db now ticket_id payload = update_ticket db now ticket_id payload"
| "ticket_id_route PATCH db now ticket_id payload = update_ticket db now ticket_id payload"
| "ticket_id_route DELETE db now ticket_id payload =
     (case delete_ticket db ticket_id of
        (Inl e, db') \<Rightarrow> (Inl e, db')
      | (Inr confirmation, db') \<Rightarrow> (Inr (Some confirmation), db'))"
| "ticket_id_route POST db now ticket_id payload = (Inl (HTTPException 405 ''Method Not Allowed''), db)"

section \<open>The diagnostic route\<close>

text \<open>The signs of the status texts: U+2705, U+274C, and U+26A0 followed by U+FE0F.\<close>

definition check_mark :: string where
  "check_mark = [CHR 0xE2, CHR 0x9C, CHR 0x85]"

definition cross_mark :: string where
  "cross_mark = [CHR 0xE2, CHR 0x9D, CHR 0x8C]"

definition warning_sign :: string where
  "warning_sign = [CHR 0xE2, CHR 0x9A, CHR 0xA0, CHR 0xEF, CHR 0xB8, CHR 0x8F]"

text \<open>The dict \<open>response\<close> of \<open>test_database\<close>: its six keys are fixed.\<close>

record test_response =
  backend :: string
  database :: string
  database_url :: "string option"
  database_name :: "string option"
  connection_status :: string
  collections :: "string list"

text \<open>
  The outer \<open>try\<close> block of \<open>test_database\<close>, with the inner \<open>try\<close> and its handler.
  \<open>Inl m\<close> stands for an exception \<open>e\<close> with \<open>str(e) = m\<close> that leaves the block.
\<close>

definition try_database :: "mongo_db option \<Rightarrow> test_response \<Rightarrow> string + test_response" where
  "try_database db response =
     (case db of
        Some d \<Rightarrow>
          (let response = response
                 \<lparr>database := check_mark @ '' Available'',
                  database_url := Some (check_mark @ '' Configured''),
                  database_name := Some (case name d of Some n \<Rightarrow> n | None \<Rightarrow> check_mark @ '' Connected''),
                  connection_status := ''Connected''\<rparr>
           in case list_collection_names d of
                Inr names \<Rightarrow>
                  Inr (response\<lparr>collections := take 10 names,
                                 database := check_mark @ '' Connected & Working''\<rparr>)
              | Inl e \<Rightarrow>
                  Inr (response\<lparr>database := warning_sign @ ''  Connected but Error: '' @ str_slice_to 50 e\<rparr>))
      | None \<Rightarrow> Inr (response\<lparr>database := warning_sign @ ''  Available but not initialized''\<rparr>))"

text \<open>\<open>"Set" if os.getenv(k) else "Not Set"\<close>: an unset and an empty variable are falsy.\<close>

definition env_status :: "(string \<Rightarrow> string option) \<Rightarrow> string \<Rightarrow> string" where
  "env_status getenv k =
     (case getenv k of
        None \<Rightarrow> cross_mark @ '' Not Set''
      | Some v \<Rightarrow> if v = [] then cross_mark @ '' Not Set'' else check_mark @ '' Set'')"

text \<open>
  \<open>GET /test\<close>; \<open>getenv\<close> is the environment. \<open>Inl m\<close> would be an exception that leaves
  the route.
\<close>

definition test_database :: "mongo_db option \<Rightarrow> (string \<Rightarrow> string option) \<Rightarrow> string + test_response" where
  "test_database db getenv =
     (let response =
            \<lparr>backend = check_mark @ '' Running'',
             database = cross_mark @ '' Not Available'',
             database_url = None,
             database_name = None,
             connection_status = ''Not Connected'',
             collections = []\<rparr>;
          response =
            (case try_database db response of
               Inr r \<Rightarrow> r
             | Inl e \<Rightarrow> response\<lparr>database := cross_mark @ '' Error: '' @ str_slice_to 50 e\<rparr>);
          response = response
            \<lparr>database_url := Some (env_status getenv ''DATABASE_URL''),
             database_name := Some (env_status getenv ''DATABASE_NAME'')\<rparr>
      in Inr response)"

section \<open>The specification's subset\<close>

text \<open>
  In the words of the specification: the subset of the tickets whose field \<open>field\<close> equals
  the given text. The listing's response is compared with it.
\<close>

definition tickets_with :: "string \<Rightarrow> string \<Rightarrow> doc list \<Rightarrow> doc list" where
  "tickets_with field v docs = filter (\<lambda>t. map_of t field = Some (VStr v)) docs"

section \<open>Example data\<close>

definition ticket1_id :: string where
  "ticket1_id = ''65f1a0b2c3d4e5f60718293a''"

definition ticket1 :: doc where
  "ticket1 =
     [(''_id'', VObjectId (Oid ticket1_id)), (''title'', VStr ''Fix login bug''),
      (''description'', VNone), (''status'', VStr ''open''), (''priority'', VStr ''high''),
      (''assignee'', VStr ''ada'')]"

definition ticket2_id :: string where
  "ticket2_id = ''65f1a0b2c3d4e5f60718293b''"

definition ticket2 :: doc where
  "ticket2 =
     [(''_id'', VObjectId (Oid ticket2_id)), (''title'', VStr ''Write docs''),
      (''description'', VStr ''user guide''), (''status'', VStr ''closed''), (''priority'', VStr ''low''),
      (''assignee'', VNone)]"

definition absent_id :: string where
  "absent_id = ''65f1a0b2c3d4e5f60718293c''"

definition store1 :: mongo_db where
  "store1 =
     \<lparr>name = Some ''helpdesk'',
      list_collection_names = Inr [''ticket''],
      colls = (\<lambda>c. if c = ''ticket'' then [ticket1, ticket2] else [])\<rparr>"

definition broken_store :: mongo_db where
  "broken_store =
     \<lparr>name = Some ''helpdesk'',
      list_collection_names = Inl ''connection refused'',
      colls = (\<lambda>c. [])\<rparr>"

definition now1 :: datetime where
  "now1 = Datetime (Date 2024 5 7) 9 3 0 123456"

definition new_ticket :: TicketCreate where
  "new_ticket = TicketCreate ''Fix login bug'' None (Some ''open'') (Some ''high'') None"

definition status_closed :: TicketUpdate where
  "status_closed =
     \<lparr>title = None, description = None, status = Some (Some ''closed''), priority = None,
      assignee = None\<rparr>"

definition no_fields :: TicketUpdate where
  "no_fields =
     \<lparr>title = None, description = None, status = None, priority = None, assignee = None\<rparr>"

definition stamped_ticket :: doc where
  "stamped_ticket =
     ticket1 @ [(''updated_at'', VDatetime now1), (''due'', VDate (Date 2024 6 1)), (''votes'', VInt 3)]"

section \<open>Facts about the store\<close>

lemmas example_defs = ticket1_def ticket2_def ticket1_id_def ticket2_id_def absent_id_def store1_def
  broken_store_def now1_def new_ticket_def status_closed_def no_fields_def stamped_ticket_def

lemmas text_defs = datetime_isoformat_def pad2_def pad4_def pad6_def digit_def

lemma find_one_has_id: "find_one docs oid = Some d \<Longrightarrow> has_id oid d"
  unfolding find_one_def by (induction docs) (auto split: if_splits)

lemma has_id_nonempty: "has_id oid d \<Longrightarrow> d \<noteq> []"
  by (auto simp: has_id_def)

lemma has_id_unique: "has_id a d \<Longrightarrow> has_id b d \<Longrightarrow> a = b"
  by (simp add: has_id_def)

lemma find_one_truthy: "find_one docs oid = Some d \<Longrightarrow> \<not> falsy (Some d)"
  by (auto simp: falsy_def dest!: find_one_has_id has_id_nonempty)

lemma find_one_append:
  "find_one (xs @ ys) oid = (case find_one xs oid of None \<Rightarrow> find_one ys oid | Some d \<Rightarrow> Some d)"
  unfolding find_one_def by (induction xs) auto

lemma map_of_set_fields_other:
  "k \<notin> fst ` set updates \<Longrightarrow> map_of (set_fields updates d) k = map_of d k"
  unfolding set_fields_def
  by (induction updates arbitrary: d) (auto simp: update_conv')

lemma has_id_set_fields:
  "''_id'' \<notin> fst ` set updates \<Longrightarrow> has_id oid (set_fields updates d) = has_id oid d"
  by (simp add: has_id_def map_of_set_fields_other)

lemma update_one_absent:
  "find_one docs oid = None \<Longrightarrow> update_one docs oid updates = (0, docs)"
  unfolding find_one_def by (induction docs) (auto split: if_splits)

text \<open>
  An update that does not assign \<open>_id\<close> rewrites the matching document where it stands and
  leaves every other identifier's document as it was.
\<close>

lemma update_one_present:
  "find_one docs oid = Some old \<Longrightarrow> ''_id'' \<notin> fst ` set updates \<Longrightarrow>
   \<exists>docs'. update_one docs oid updates = (1, docs') \<and>
     find_one docs' oid = Some (set_fields updates old) \<and>
     length docs' = length docs \<and>
     (\<forall>other. other \<noteq> oid \<longrightarrow> find_one docs' other = find_one docs other)"
proof (induction docs)
  case Nil
  then show ?case by (simp add: find_one_def)
next
  case (Cons d ds)
  show ?case
  proof (cases "has_id oid d")
    case True
    with Cons.prems have old: "old = d" by (simp add: find_one_def)
    have keep: "has_id other (set_fields updates d) = has_id other d" for other
      using Cons.prems(2) by (rule has_id_set_fields)
    from True old keep show ?thesis by (auto simp: find_one_def dest: has_id_unique)
  next
    case False
    with Cons.prems have "find_one ds oid = Some old" by (simp add: find_one_def)
    from Cons.IH [OF this Cons.prems(2)] obtain docs' where
      "update_one ds oid updates = (1, docs')"
      "find_one docs' oid = Some (set_fields updates old)"
      "length docs' = length ds"
      "\<forall>other. other \<noteq> oid \<longrightarrow> find_one docs' other = find_one ds other"
      by blast
    with False show ?thesis by (simp add: find_one_def)
  qed
qed



lemma lower_hex_is_hex: "is_lower_hex c \<Longrightarrow> is_hex c \<and> hex_lower c = c"
  by (auto simp: is_lower_hex_def is_hex_def hex_lower_def)

text \<open>The text of a generated identifier parses back to the identifier.\<close>

lemma ObjectId_str: "valid_oid oid \<Longrightarrow> ObjectId (str (VObjectId oid)) = Inr oid"
proof (cases oid)
  case (Oid h)
  assume "valid_oid oid"
  with Oid have len: "length h = 24" and low: "list_all is_lower_hex h" by simp_all
  from low have "list_all is_hex h" and "map hex_lower h = h"
    by (induction h) (auto dest: lower_hex_is_hex)
  with len Oid show ?thesis by (simp add: ObjectId_def)
qed

lemma insert_one_fresh:
  "find_one docs fresh = None \<Longrightarrow>
   \<exists>docs'. insert_one docs document fresh = Inr (fresh, docs') \<and>
     find_one docs' fresh = Some ((''_id'', VObjectId fresh) # map (\<lambda>(k, v). (k, bson_value v)) document)"
  by (simp add: insert_one_def find_one_append) (simp add: find_one_def has_id_def)

lemma colls_set_coll: "colls (set_coll d c docs) c' = (if c' = c then docs else colls d c')"
  by (simp add: set_coll_def)



lemmas store_defs = find_one_def has_id_def set_coll_def falsy_def ObjectId_def is_hex_def
  hex_lower_def is_lower_hex_def not_found_def invalid_id_def not_configured_def

lemma ticket1_id_parses: "ObjectId ticket1_id = Inr (Oid ticket1_id)"
  by (simp add: ticket1_id_def ObjectId_def is_hex_def hex_lower_def)


lemma store1_has_ticket1: "find_one (colls store1 ''ticket'') (Oid ticket1_id) = Some ticket1"
  by (simp add: example_defs store_defs)

lemma store1_lacks_absent_id: "find_one (colls store1 ''ticket'') (Oid absent_id) = None"
  by (simp add: example_defs store_defs)

lemma str_len_slice: "str_len (str_slice_to n s) \<le> n"
  by (induction n s rule: str_slice_to.induct) (auto simp: str_len_def split: nat.splits)

section \<open>Response shaping\<close>

lemma map_of_shaped:
  "map_of (map (\<lambda>(k, v). (k, isoformat_value v)) d) k = map_option isoformat_value (map_of d k)"
  by (simp add: map_of_map)

text \<open>Every field of a shaped document, in terms of the fields of the stored one.\<close>

lemma serialize_doc_lookup:
  "\<exists>r. serialize_doc (Some d) = Some r \<and>
     (\<forall>k. map_of r k =
        (case map_of d ''_id'' of
           None \<Rightarrow> map_option isoformat_value (map_of d k)
         | Some i \<Rightarrow> if k = ''id'' then Some (VStr (str i))
                     else if k = ''_id'' then None
                     else map_option isoformat_value (map_of d k)))"
proof (cases "d = []")
  case True
  then show ?thesis by (simp add: serialize_doc_def)
next
  case False
  show ?thesis
  proof (cases "map_of d ''_id''")
    case None
    with False show ?thesis by (simp add: serialize_doc_def map_of_shaped)
  next
    case (Some i)
    with False show ?thesis
      by (simp add: serialize_doc_def map_of_shaped update_conv' delete_conv')
  qed
qed

text \<open>
  C8. For every stored document \<open>d\<close>, \<open>serialize_doc\<close> returns a document \<open>r\<close> in which the
  identifier field \<open>_id\<close> is renamed to \<open>id\<close> and holds the \<open>str\<close> of the identifier, and in
  which every other field (any key but \<open>id\<close> and \<open>_id\<close>) holds the ISO-8601 text of a
  \<open>datetime\<close> or \<open>date\<close> value, holds any other value unchanged, and is absent when it is
  absent from \<open>d\<close>.
\<close>

theorem serialize_doc_shapes:
  "\<exists>r. serialize_doc (Some d) = Some r \<and>
     (\<forall>i. map_of d ''_id'' = Some i \<longrightarrow>
        map_of r ''id'' = Some (VStr (str i)) \<and> map_of r ''_id'' = None) \<and>
     (\<forall>k. k \<noteq> ''id'' \<and> k \<noteq> ''_id'' \<longrightarrow>
        (\<forall>dt. map_of d k = Some (VDatetime dt) \<longrightarrow> map_of r k = Some (VStr (datetime_isoformat dt))) \<and>
        (\<forall>da. map_of d k = Some (VDate da) \<longrightarrow> map_of r k = Some (VStr (date_isoformat da))) \<and>
        (\<forall>v. map_of d k = Some v \<and> (\<forall>dt. v \<noteq> VDatetime dt) \<and> (\<forall>da. v \<noteq> VDate da) \<longrightarrow> map_of r k = Some v) \<and>
        (map_of d k = None \<longrightarrow> map_of r k = None))"
proof -
  obtain r where r: "serialize_doc (Some d) = Some r"
    and look: "\<And>k. map_of r k =
        (case map_of d ''_id'' of
           None \<Rightarrow> map_option isoformat_value (map_of d k)
         | Some i \<Rightarrow> if k = ''id'' then Some (VStr (str i))
                     else if k = ''_id'' then None
                     else map_option isoformat_value (map_of d k))"
    using serialize_doc_lookup [of d] by blast
  have plain: "isoformat_value v = v" if "\<forall>dt. v \<noteq> VDatetime dt" "\<forall>da. v \<noteq> VDate da" for v
    using that by (cases v) simp_all
  have "(\<forall>i. map_of d ''_id'' = Some i \<longrightarrow>
        map_of r ''id'' = Some (VStr (str i)) \<and> map_of r ''_id'' = None)"
    by (simp add: look)
  moreover have "(\<forall>k. k \<noteq> ''id'' \<and> k \<noteq> ''_id'' \<longrightarrow>
        (\<forall>dt. map_of d k = Some (VDatetime dt) \<longrightarrow> map_of r k = Some (VStr (datetime_isoformat dt))) \<and>
        (\<forall>da. map_of d k = Some (VDate da) \<longrightarrow> map_of r k = Some (VStr (date_isoformat da))) \<and>
        (\<forall>v. map_of d k = Some v \<and> (\<forall>dt. v \<noteq> VDatetime dt) \<and> (\<forall>da. v \<noteq> VDate da) \<longrightarrow> map_of r k = Some v) \<and>
        (map_of d k = None \<longrightarrow> map_of r k = None))"
    by (auto simp: look plain split: option.splits)
  ultimately show ?thesis using r by blast
qed

theorem serialize_doc_shapes_witness:
  "map_of stamped_ticket ''_id'' = Some (VObjectId (Oid ticket1_id)) \<and>
   map_of stamped_ticket ''updated_at'' = Some (VDatetime now1) \<and>
   map_of stamped_ticket ''due'' = Some (VDate (Date 2024 6 1)) \<and>
   map_of stamped_ticket ''votes'' = Some (VInt 3) \<and>
   map_of stamped_ticket ''owner'' = None \<and>
   map_of (the (serialize_doc (Some stamped_ticket))) ''id'' = Some (VStr ticket1_id) \<and>
   map_of (the (serialize_doc (Some stamped_ticket))) ''_id'' = None \<and>
   map_of (the (serialize_doc (Some stamped_ticket))) ''updated_at'' = Some (VStr ''2024-05-07T09:03:00.123456'') \<and>
   map_of (the (serialize_doc (Some stamped_ticket))) ''due'' = Some (VStr ''2024-06-01'') \<and>
   map_of (the (serialize_doc (Some stamped_ticket))) ''votes'' = Some (VInt 3) \<and>
   map_of (the (serialize_doc (Some stamped_ticket))) ''owner'' = None"
  using serialize_doc_shapes [of stamped_ticket]
  by (simp add: example_defs serialize_doc_def text_defs)

section \<open>Reading one ticket\<close>

text \<open>
  The 404 that \<open>get_ticket\<close> raises inside its \<open>try\<close> block is an \<open>Exception\<close>, so its own
  handler turns it into the 400: no request is answered with 404.
\<close>

lemma get_ticket_never_404: "get_ticket db ticket_id \<noteq> Inl (HTTPException 404 m)"
  by (auto simp: get_ticket_def Let_def invalid_id_def not_configured_def
      split: option.splits sum.splits)

text \<open>
  C2. With the store configured, \<open>GET /api/tickets/{id}\<close> should answer 404 for a well-formed
  identifier that no ticket has. The identifier \<open>absent_id\<close> is well formed and no ticket of
  \<open>store1\<close> has it, and \<open>get_ticket\<close> answers 400 with the detail "Invalid ticket id".
\<close>

theorem get_ticket_absent_is_400:
  "ObjectId absent_id = Inr (Oid absent_id) \<and>
   find_one (colls store1 ''ticket'') (Oid absent_id) = None \<and>
   get_ticket (Some store1) absent_id = Inl (HTTPException 400 ''Invalid ticket id'')"
  by (simp add: get_ticket_def ObjectId_def absent_id_def store1_def find_one_def has_id_def
      ticket1_def ticket2_def ticket1_id_def ticket2_id_def is_hex_def hex_lower_def falsy_def
      not_found_def invalid_id_def)

section \<open>Updating\<close>

text \<open>
  C5. For every store state, time, ticket id and update payload, the route of \<open>PATCH\<close> and the
  route of \<open>PUT\<close> on \<open>/api/tickets/{id}\<close> give the same response and the same store: both
  are \<open>update_ticket\<close>, the partial merge.
\<close>

theorem patch_is_put:
  "ticket_id_route PATCH db now ticket_id payload = ticket_id_route PUT db now ticket_id payload \<and>
   ticket_id_route PATCH db now ticket_id payload = update_ticket db now ticket_id payload"
  by simp

theorem patch_is_put_witness:
  "ticket_id_route PATCH (Some store1) now1 ticket1_id status_closed =
   ticket_id_route PUT (Some store1) now1 ticket1_id status_closed"
  using patch_is_put [of "Some store1" now1 ticket1_id status_closed] by simp

section \<open>Listing\<close>

lemma filter_q_empty_status: "filter_q (Some []) p = filter_q None p"
  by (simp add: filter_q_def)

lemma filter_q_empty_priority: "filter_q s (Some []) = filter_q s None"
  by (simp add: filter_q_def)

text \<open>
  C10. For \<open>GET /api/tickets\<close>, a \<open>status\<close> or \<open>priority\<close> parameter that is the empty text
  is treated as if absent: in every store state, and whatever the other parameter is, the
  response is the one of the request without that parameter.
\<close>

theorem empty_parameter_is_absent:
  "list_tickets db (Some []) priority_param = list_tickets db None priority_param \<and>
   list_tickets db status_param (Some []) = list_tickets db status_param None"
  unfolding list_tickets_def filter_q_empty_status filter_q_empty_priority by simp

theorem empty_parameter_is_absent_witness:
  "list_tickets (Some store1) (Some []) None = list_tickets (Some store1) None None \<and>
   list_tickets (Some store1) (Some ''open'') (Some []) = list_tickets (Some store1) (Some ''open'') None"
  using empty_parameter_is_absent [of "Some store1" None "Some ''open''"] by simp

section \<open>The diagnostic route\<close>

text \<open>
  C9. In every store state and environment, \<open>GET /test\<close> raises nothing: it returns a
  diagnostic object \<open>r\<close> that lists at most 10 collection names. When the store is absent
  its status text says so; when the store is present and the listing succeeds it lists the
  first 10 names; when the listing raises, the error is captured: the status text is
  "Connected but Error: " followed by the first 50 characters of the error's text, and no
  name is listed.
\<close>

theorem test_database_returns:
  "\<exists>r. test_database db getenv = Inr r \<and>
     length (collections r) \<le> 10 \<and>
     (db = None \<longrightarrow>
        database r = warning_sign @ ''  Available but not initialized'' \<and> collections r = []) \<and>
     (\<forall>d names. db = Some d \<and> list_collection_names d = Inr names \<longrightarrow>
        database r = check_mark @ '' Connected & Working'' \<and> collections r = take 10 names) \<and>
     (\<forall>d e. db = Some d \<and> list_collection_names d = Inl e \<longrightarrow>
        database r = warning_sign @ ''  Connected but Error: '' @ str_slice_to 50 e \<and>
        collections r = [])"
  by (cases db) (auto simp: test_database_def try_database_def Let_def split: sum.splits)

theorem test_database_returns_witness:
  "test_database None (\<lambda>k. None) \<noteq> Inl ''x'' \<and>
   list_collection_names store1 = Inr [''ticket''] \<and>
   list_collection_names broken_store = Inl ''connection refused'' \<and>
   map_sum id database (test_database None (\<lambda>k. None)) = Inr (warning_sign @ ''  Available but not initialized'') \<and>
   map_sum id database (test_database (Some store1) (\<lambda>k. None)) = Inr (check_mark @ '' Connected & Working'') \<and>
   map_sum id collections (test_database (Some store1) (\<lambda>k. None)) = Inr [''ticket''] \<and>
   map_sum id database (test_database (Some broken_store) (\<lambda>k. None)) =
     Inr (warning_sign @ ''  Connected but Error: connection refused'')"
  using test_database_returns [of None "\<lambda>k. None"]
    test_database_returns [of "Some store1" "\<lambda>k. None"]
    test_database_returns [of "Some broken_store" "\<lambda>k. None"]
  by (auto simp: example_defs is_continuation_def)

section \<open>Partial updates\<close>

text \<open>
  C3. For every existing ticket (the id parses and the collection has a ticket \<open>old\<close> with
  it) and every body that supplies exactly the field \<open>status\<close>, \<open>update_ticket\<close> answers with
  the shaped new document \<open>new\<close> of that id, and \<open>new\<close> differs from \<open>old\<close> only in
  \<open>status\<close>, which is the supplied value, and in \<open>updated_at\<close>, which is the service's time
  as the store keeps it; every other field has its prior value. No other ticket and no other
  collection changes.
\<close>

theorem patch_status_frame:
  assumes "ObjectId ticket_id = Inr oid"
    and "find_one (colls d ''ticket'') oid = Some old"
  shows "\<exists>d' new.
      update_ticket (Some d) now ticket_id
        \<lparr>title = None, description = None, status = Some s, priority = None, assignee = None\<rparr> =
        (Inr (serialize_doc (Some new)), Some d') \<and>
      find_one (colls d' ''ticket'') oid = Some new \<and>
      map_of new ''status'' = Some (optional_str s) \<and>
      map_of new ''updated_at'' = Some (bson_value (VDatetime now)) \<and>
      (\<forall>k. k \<noteq> ''status'' \<and> k \<noteq> ''updated_at'' \<longrightarrow> map_of new k = map_of old k) \<and>
      length (colls d' ''ticket'') = length (colls d ''ticket'') \<and>
      (\<forall>other. other \<noteq> oid \<longrightarrow>
         find_one (colls d' ''ticket'') other = find_one (colls d ''ticket'') other) \<and>
      (\<forall>c. c \<noteq> ''ticket'' \<longrightarrow> colls d' c = colls d c)"
proof -
  define updates where "updates = [(''status'', optional_str s), (''updated_at'', VDatetime now)]"
  have no_id: "''_id'' \<notin> fst ` set updates" by (simp add: updates_def)
  from update_one_present [OF assms(2) no_id] obtain docs' where
    upd: "update_one (colls d ''ticket'') oid updates = (1, docs')"
    and found: "find_one docs' oid = Some (set_fields updates old)"
    and len: "length docs' = length (colls d ''ticket'')"
    and others: "\<forall>other. other \<noteq> oid \<longrightarrow> find_one docs' other = find_one (colls d ''ticket'') other"
    by blast
  let ?new = "set_fields updates old"
  let ?d' = "set_coll d ''ticket'' docs'"
  have bs: "bson_value (optional_str s) = optional_str s" by (cases s) simp_all
  have run: "update_ticket (Some d) now ticket_id
        \<lparr>title = None, description = None, status = Some s, priority = None, assignee = None\<rparr> =
        (Inr (serialize_doc (Some ?new)), Some ?d')"
    using assms(1) upd found
    by (simp add: update_ticket_def model_dump_exclude_unset_def dump_if_set_def updates_def
        colls_set_coll)
  have st: "map_of ?new ''status'' = Some (optional_str s)"
    by (simp add: set_fields_def updates_def update_conv' bs)
  have ts: "map_of ?new ''updated_at'' = Some (bson_value (VDatetime now))"
    by (simp add: set_fields_def updates_def update_conv')
  have frame: "\<forall>k. k \<noteq> ''status'' \<and> k \<noteq> ''updated_at'' \<longrightarrow> map_of ?new k = map_of old k"
    by (simp add: set_fields_def updates_def update_conv')
  have rest: "\<forall>c. c \<noteq> ''ticket'' \<longrightarrow> colls ?d' c = colls d c"
    by (simp add: colls_set_coll)
  from run found st ts frame len others rest show ?thesis
    by (intro exI [of _ ?d'] exI [of _ ?new]) (simp add: colls_set_coll)
qed

theorem patch_status_frame_witness:
  "ObjectId ticket1_id = Inr (Oid ticket1_id) \<and>
   find_one (colls store1 ''ticket'') (Oid ticket1_id) = Some ticket1 \<and>
   find_one (colls (the (snd (update_ticket (Some store1) now1 ticket1_id status_closed))) ''ticket'')
       (Oid ticket1_id) =
     Some [(''_id'', VObjectId (Oid ticket1_id)), (''title'', VStr ''Fix login bug''),
           (''description'', VNone), (''status'', VStr ''closed''), (''priority'', VStr ''high''),
           (''assignee'', VStr ''ada''),
           (''updated_at'', VDatetime (Datetime (Date 2024 5 7) 9 3 0 123000))] \<and>
   find_one (colls (the (snd (update_ticket (Some store1) now1 ticket1_id status_closed))) ''ticket'')
       (Oid ticket2_id) = Some ticket2 \<and>
   fst (update_ticket (Some store1) now1 ticket1_id status_closed) =
     Inr (Some [(''title'', VStr ''Fix login bug''), (''description'', VNone),
                (''status'', VStr ''closed''), (''priority'', VStr ''high''),
                (''assignee'', VStr ''ada''),
                (''updated_at'', VStr ''2024-05-07T09:03:00.123000''),
                (''id'', VStr ticket1_id)])"
proof -
  note d = ticket1_id_parses
  note e = store1_has_ticket1
  from patch_status_frame [OF d e, of now1 "Some ''closed''"] d e show ?thesis
    by (simp add: update_ticket_def model_dump_exclude_unset_def dump_if_set_def
        example_defs store_defs set_fields_def serialize_doc_def text_defs)
qed

text \<open>
  C4. For every existing ticket with a well-formed id, \<open>update_ticket\<close> with a body that
  supplies no field returns the shaped current document as a normal response and leaves the
  store as it was: nothing is written, so \<open>updated_at\<close> is not set.
\<close>

theorem empty_patch_is_read:
  assumes "ObjectId ticket_id = Inr oid"
    and "find_one (colls d ''ticket'') oid = Some old"
  shows "update_ticket (Some d) now ticket_id
           \<lparr>title = None, description = None, status = None, priority = None, assignee = None\<rparr> =
         (Inr (serialize_doc (Some old)), Some d)"
  using assms find_one_truthy [OF assms(2)]
  by (simp add: update_ticket_def model_dump_exclude_unset_def dump_if_set_def)

theorem empty_patch_is_read_witness:
  "ObjectId ticket1_id = Inr (Oid ticket1_id) \<and>
   find_one (colls store1 ''ticket'') (Oid ticket1_id) = Some ticket1 \<and>
   update_ticket (Some store1) now1 ticket1_id no_fields =
     (Inr (serialize_doc (Some ticket1)), Some store1)"
proof -
  note d = ticket1_id_parses
  note e = store1_has_ticket1
  from empty_patch_is_read [OF d e, of now1] d e show ?thesis
    by (simp add: no_fields_def)
qed

section \<open>Deleting\<close>



section \<open>Listing with filters\<close>

lemma matches_filter_q:
  "matches (filter_q sp pp) =
     (\<lambda>t. (\<forall>s. sp = Some s \<and> s \<noteq> [] \<longrightarrow> map_of t ''status'' = Some (VStr s)) \<and>
          (\<forall>p. pp = Some p \<and> p \<noteq> [] \<longrightarrow> map_of t ''priority'' = Some (VStr p)))"
  by (rule ext) (auto simp: matches_def filter_q_def split: option.splits)

text \<open>
  C6, amended. In every store state, \<open>list_tickets\<close> with a non-empty \<open>status\<close> parameter
  returns exactly the shaped tickets whose \<open>status\<close> field equals it, in store order;
  likewise for a non-empty \<open>priority\<close>; with both, exactly the tickets that match both; and
  with no parameter the entire collection.
\<close>

theorem list_tickets_nonempty_filters:
  "(s \<noteq> [] \<longrightarrow>
      list_tickets (Some d) (Some s) None =
        Inr (map (serialize_doc \<circ> Some) (tickets_with ''status'' s (colls d ''ticket'')))) \<and>
   (p \<noteq> [] \<longrightarrow>
      list_tickets (Some d) None (Some p) =
        Inr (map (serialize_doc \<circ> Some) (tickets_with ''priority'' p (colls d ''ticket'')))) \<and>
   (s \<noteq> [] \<and> p \<noteq> [] \<longrightarrow>
      list_tickets (Some d) (Some s) (Some p) =
        Inr (map (serialize_doc \<circ> Some)
               (tickets_with ''priority'' p (tickets_with ''status'' s (colls d ''ticket''))))) \<and>
   list_tickets (Some d) None None = Inr (map (serialize_doc \<circ> Some) (colls d ''ticket''))"
  by (auto simp: list_tickets_def get_documents_def matches_filter_q tickets_with_def comp_def
      intro: filter_cong)

theorem list_tickets_nonempty_filters_witness:
  "''open'' \<noteq> [] \<and> ''low'' \<noteq> [] \<and>
   list_tickets (Some store1) (Some ''open'') None = Inr [serialize_doc (Some ticket1)] \<and>
   list_tickets (Some store1) None (Some ''low'') = Inr [serialize_doc (Some ticket2)] \<and>
   list_tickets (Some store1) (Some ''open'') (Some ''low'') = Inr [] \<and>
   list_tickets (Some store1) None None = Inr [serialize_doc (Some ticket1), serialize_doc (Some ticket2)]"
  using list_tickets_nonempty_filters [of "''open''" store1 "''low''"]
  by (simp add: tickets_with_def store1_def ticket1_def ticket2_def)

text \<open>
  C6 as stated fails for the empty text: no ticket of \<open>store1\<close> has the status \<open>""\<close>, and
  the request with \<open>status=""\<close> returns both tickets of the collection.
\<close>

theorem empty_status_lists_all:
  "tickets_with ''status'' [] (colls store1 ''ticket'') = [] \<and>
   list_tickets (Some store1) (Some []) None =
     Inr (map (serialize_doc \<circ> Some) [ticket1, ticket2]) \<and>
   list_tickets (Some store1) (Some []) None \<noteq>
     Inr (map (serialize_doc \<circ> Some) (tickets_with ''status'' [] (colls store1 ''ticket'')))"
  by (simp add: list_tickets_def get_documents_def filter_q_def matches_def tickets_with_def
      store1_def ticket1_def ticket2_def)

section \<open>Creating and reading back\<close>

lemma optional_str_plain:
  "bson_value (optional_str x) = optional_str x" "isoformat_value (optional_str x) = optional_str x"
  by (cases x; simp)+

lemma map_of_model_dump_plain:
  "map_option isoformat_value (map_of (map (\<lambda>(k, v). (k, bson_value v)) (model_dump p)) k) =
   map_of (model_dump p) k"
  by (cases p) (simp add: optional_str_plain)

text \<open>
  C1. For every valid creation payload, in a configured store, with an identifier \<open>fresh\<close>
  generated by the driver that no ticket has yet: \<open>create_ticket\<close> returns a document with
  an \<open>id\<close>, and \<open>get_ticket\<close> with that \<open>id\<close> on the resulting store returns a document
  whose every field other than \<open>id\<close> and \<open>updated_at\<close> is the field of the payload.
\<close>

theorem create_then_get:
  assumes "valid_ticket payload" and "valid_oid fresh"
    and "find_one (colls d ''ticket'') fresh = None"
  shows "\<exists>created db' ticket_id got.
      create_ticket (Some d) payload fresh = (Inr (Some created), db') \<and>
      map_of created ''id'' = Some (VStr ticket_id) \<and>
      get_ticket db' ticket_id = Inr (Some got) \<and>
      (\<forall>k. k \<noteq> ''id'' \<and> k \<noteq> ''updated_at'' \<longrightarrow> map_of got k = map_of (model_dump payload) k)"
proof -
  let ?stored = "(''_id'', VObjectId fresh) # map (\<lambda>(k, v). (k, bson_value v)) (model_dump payload)"
  let ?tid = "str (VObjectId fresh)"
  from insert_one_fresh [OF assms(3)] obtain docs' where
    ins: "insert_one (colls d ''ticket'') (model_dump payload) fresh = Inr (fresh, docs')"
    and found: "find_one docs' fresh = Some ?stored"
    by blast
  let ?db' = "Some (set_coll d ''ticket'' docs')"
  from serialize_doc_lookup [of ?stored] obtain created where
    ser: "serialize_doc (Some ?stored) = Some created"
    and look: "\<And>k. map_of created k =
        (if k = ''id'' then Some (VStr ?tid) else if k = ''_id'' then None
         else map_option isoformat_value (map_of ?stored k))"
    by auto
  have parse: "ObjectId ?tid = Inr fresh" using assms(2) by (rule ObjectId_str)
  have post: "create_ticket (Some d) payload fresh = (Inr (Some created), ?db')"
    using ins parse found ser
    by (simp add: create_ticket_def create_document_def colls_set_coll)
  have truthy: "\<not> falsy (Some ?stored)" by (simp add: falsy_def)
  have get: "get_ticket ?db' ?tid = Inr (Some created)"
    using parse found ser truthy by (simp add: get_ticket_def colls_set_coll)
  have idf: "map_of created ''id'' = Some (VStr ?tid)" by (simp add: look)
  have no_id: "map_of (model_dump payload) ''_id'' = None" by (cases payload) simp
  have fields: "\<forall>k. k \<noteq> ''id'' \<and> k \<noteq> ''updated_at'' \<longrightarrow> map_of created k = map_of (model_dump payload) k"
    using no_id by (auto simp: look map_of_model_dump_plain)
  from post idf get fields show ?thesis by blast
qed

theorem create_then_get_witness:
  "valid_ticket new_ticket \<and> valid_oid (Oid absent_id) \<and>
   find_one (colls store1 ''ticket'') (Oid absent_id) = None \<and>
   fst (create_ticket (Some store1) new_ticket (Oid absent_id)) =
     Inr (Some [(''title'', VStr ''Fix login bug''), (''description'', VNone),
                (''status'', VStr ''open''), (''priority'', VStr ''high''), (''assignee'', VNone),
                (''id'', VStr absent_id)]) \<and>
   get_ticket (snd (create_ticket (Some store1) new_ticket (Oid absent_id))) absent_id =
     Inr (Some [(''title'', VStr ''Fix login bug''), (''description'', VNone),
                (''status'', VStr ''open''), (''priority'', VStr ''high''), (''assignee'', VNone),
                (''id'', VStr absent_id)])"
proof -
  have a: "valid_ticket new_ticket" by (simp add: new_ticket_def)
  have b: "valid_oid (Oid absent_id)" by (simp add: absent_id_def is_lower_hex_def)
  note c = store1_lacks_absent_id
  from create_then_get [OF a b c] a b c show ?thesis
    by (simp add: create_ticket_def create_document_def insert_one_def get_ticket_def
        example_defs store_defs serialize_doc_def)
qed

end
